theory Spec2Isabelle
  imports Main "HOL-Library.Word"
begin

unbundle bit_operations_syntax

section \<open>NewHope key exchange: the orchestration layer of crypto/newhope/newhope.c\<close>

subsection \<open>Types and constants of internal.h\<close>

type_synonym uint8_t = "8 word"
type_synonym uint16_t = "16 word"
type_synonym c_int = "32 word"

text \<open>Modelled from the spec: the header internal.h is not part of the sources at hand.
  The ring dimension is N = 1024 (spec section 3).\<close>

definition PARAM_N :: nat where
  "PARAM_N = 1024"

text \<open>Modelled from the spec: a ring element is "an ordered sequence of exactly N
  coefficients", each small enough for 14 bits; the C struct holds them in an array
  of 16-bit unsigned integers. A well-formed polynomial has exactly
  \<open>PARAM_N\<close> coefficients.\<close>

record NEWHOPE_POLY =
  coeffs :: "uint16_t list"

text \<open>Modelled from the spec: the message lengths of the missing header. A packed ring
  element takes \<open>ceil(N * 14 / 8)\<close> bytes, the seed 32 bytes, the packed
  reconciliation data \<open>N / 4\<close> bytes; the raw secret and the digest are 32 bytes
  each (spec sections 3 and 6).\<close>

definition NEWHOPE_POLY_LENGTH :: nat where
  "NEWHOPE_POLY_LENGTH = (PARAM_N * 14 + 7) div 8"

definition SEED_LENGTH :: nat where
  "SEED_LENGTH = 32"

definition NEWHOPE_KEY_LENGTH :: nat where
  "NEWHOPE_KEY_LENGTH = 32"

definition SHA256_DIGEST_LENGTH :: nat where
  "SHA256_DIGEST_LENGTH = 32"

definition NEWHOPE_OFFERMSG_LENGTH :: nat where
  "NEWHOPE_OFFERMSG_LENGTH = NEWHOPE_POLY_LENGTH + SEED_LENGTH"

definition NEWHOPE_ACCEPTMSG_LENGTH :: nat where
  "NEWHOPE_ACCEPTMSG_LENGTH = NEWHOPE_POLY_LENGTH + PARAM_N div 4"

definition poly_wf :: "NEWHOPE_POLY \<Rightarrow> bool" where
  "poly_wf p = (length (coeffs p) = PARAM_N)"

subsection \<open>Packing the reconciliation data\<close>

text \<open>The right-hand side of the assignment in the body of \<open>encode_rec\<close>. The four
  16-bit coefficients are promoted to \<open>int\<close>, shifted and or-ed there, and the
  assignment to a \<open>uint8_t\<close> keeps the low eight bits.\<close>

definition encode_rec_byte :: "NEWHOPE_POLY \<Rightarrow> nat \<Rightarrow> uint8_t" where
  "encode_rec_byte c i =
     ucast ((ucast (coeffs c ! (4 * i)) :: c_int)
            OR push_bit 2 (ucast (coeffs c ! (4 * i + 1)) :: c_int)
            OR push_bit 4 (ucast (coeffs c ! (4 * i + 2)) :: c_int)
            OR push_bit 6 (ucast (coeffs c ! (4 * i + 3)) :: c_int))"

text \<open>The same expression on four coefficients.\<close>

definition pack4 :: "uint16_t \<Rightarrow> uint16_t \<Rightarrow> uint16_t \<Rightarrow> uint16_t \<Rightarrow> uint8_t" where
  "pack4 c0 c1 c2 c3 =
     ucast ((ucast c0 :: c_int) OR push_bit 2 (ucast c1 :: c_int)
            OR push_bit 4 (ucast c2 :: c_int) OR push_bit 6 (ucast c3 :: c_int))"

text \<open>The loop of \<open>encode_rec\<close>, from counter \<open>i\<close> on; \<open>r\<close> is the buffer the
  pointer \<open>r\<close> of the C function points to.\<close>

function encode_rec_loop :: "nat \<Rightarrow> NEWHOPE_POLY \<Rightarrow> uint8_t list \<Rightarrow> uint8_t list" where
  "encode_rec_loop i c r =
     (if i < PARAM_N div 4
      then encode_rec_loop (i + 1) c (r[i := encode_rec_byte c i])
      else r)"
  by pat_completeness auto
termination
  by (relation "measure (\<lambda>(i, c, r). PARAM_N div 4 - i)") auto

declare encode_rec_loop.simps [simp del]

definition encode_rec :: "NEWHOPE_POLY \<Rightarrow> uint8_t list \<Rightarrow> uint8_t list" where
  "encode_rec c r = encode_rec_loop 0 c r"

text \<open>One iteration of the loop of \<open>decode_rec\<close>: four stores into \<open>c->coeffs\<close>.
  The byte is promoted to \<open>int\<close> before it is shifted and masked.\<close>

definition decode_rec_step :: "uint8_t list \<Rightarrow> nat \<Rightarrow> uint16_t list \<Rightarrow> uint16_t list" where
  "decode_rec_step r i cs =
     cs[4 * i + 0 := ucast ((ucast (r ! i) :: c_int) AND 0x03),
        4 * i + 1 := ucast (drop_bit 2 (ucast (r ! i) :: c_int) AND 0x03),
        4 * i + 2 := ucast (drop_bit 4 (ucast (r ! i) :: c_int) AND 0x03),
        4 * i + 3 := ucast (drop_bit 6 (ucast (r ! i) :: c_int))]"

function decode_rec_loop :: "nat \<Rightarrow> uint8_t list \<Rightarrow> NEWHOPE_POLY \<Rightarrow> NEWHOPE_POLY" where
  "decode_rec_loop i r c =
     (if i < PARAM_N div 4
      then decode_rec_loop (i + 1) r (c\<lparr>coeffs := decode_rec_step r i (coeffs c)\<rparr>)
      else c)"
  by pat_completeness auto
termination
  by (relation "measure (\<lambda>(i, r, c). PARAM_N div 4 - i)") auto

declare decode_rec_loop.simps [simp del]

definition decode_rec :: "uint8_t list \<Rightarrow> NEWHOPE_POLY \<Rightarrow> NEWHOPE_POLY" where
  "decode_rec r c = decode_rec_loop 0 r c"

text \<open>The bit layout in the words of the spec: slot \<open>j\<close> of a byte is the 2-bit
  value at bit positions \<open>[2j, 2j + 2)\<close>.\<close>

definition hint_slot :: "nat \<Rightarrow> uint8_t \<Rightarrow> uint16_t" where
  "hint_slot j b = ucast (take_bit 2 (drop_bit (2 * j) b))"

definition hint_wf :: "NEWHOPE_POLY \<Rightarrow> bool" where
  "hint_wf h = (poly_wf h \<and> (\<forall>x \<in> set (coeffs h). x < 4))"

subsection \<open>The primitives newhope.c calls\<close>

text \<open>The functions of the other translation units (polynomial arithmetic, the
  transform, the samplers, the codec of ring elements, reconciliation), the random
  byte source and SHA-256 are parameters of the model. The random source is a state
  \<open>'rng\<close> that \<open>RAND_bytes\<close> and the noise sampler advance; the arithmetic and
  the codec are functions of their arguments. A SHA-256 call that returns 0 is
  \<open>None\<close>.\<close>

record ('rng, 'ctx) newhope_env =
  RAND_bytes :: "nat \<Rightarrow> 'rng \<Rightarrow> uint8_t list \<times> 'rng"
  newhope_poly_getnoise :: "'rng \<Rightarrow> NEWHOPE_POLY \<times> 'rng"
  newhope_poly_uniform :: "uint8_t list \<Rightarrow> NEWHOPE_POLY"
  newhope_poly_ntt :: "NEWHOPE_POLY \<Rightarrow> NEWHOPE_POLY"
  newhope_poly_invntt :: "NEWHOPE_POLY \<Rightarrow> NEWHOPE_POLY"
  newhope_poly_pointwise :: "NEWHOPE_POLY \<Rightarrow> NEWHOPE_POLY \<Rightarrow> NEWHOPE_POLY"
  newhope_poly_add :: "NEWHOPE_POLY \<Rightarrow> NEWHOPE_POLY \<Rightarrow> NEWHOPE_POLY"
  newhope_poly_tobytes :: "NEWHOPE_POLY \<Rightarrow> uint8_t list"
  NEWHOPE_POLY_frombytes :: "uint8_t list \<Rightarrow> NEWHOPE_POLY"
  newhope_helprec :: "NEWHOPE_POLY \<Rightarrow> uint8_t list \<Rightarrow> NEWHOPE_POLY"
  newhope_reconcile :: "NEWHOPE_POLY \<Rightarrow> NEWHOPE_POLY \<Rightarrow> uint8_t list"
  SHA256_Init :: "'ctx option"
  SHA256_Update :: "'ctx \<Rightarrow> uint8_t list \<Rightarrow> 'ctx option"
  SHA256_Final :: "'ctx \<Rightarrow> uint8_t list option"

text \<open>A callee that is handed a pointer into a buffer sees the buffer from that offset
  on (\<open>drop\<close>); the bytes a callee writes through a pointer replace the bytes of the
  buffer from that offset on.\<close>

definition store_bytes :: "uint8_t list \<Rightarrow> nat \<Rightarrow> uint8_t list \<Rightarrow> uint8_t list" where
  "store_bytes buf off bs = take off buf @ bs @ drop (off + length bs) buf"

text \<open>The two places where newhope.c returns 0.\<close>

datatype error = LengthMismatch | HashFailure

definition c_return :: "error + unit \<Rightarrow> int" where
  "c_return r = (case r of Inl e \<Rightarrow> 0 | Inr u \<Rightarrow> 1)"

text \<open>A local polynomial before its first store. Every function that receives one
  as its destination overwrites all of it.\<close>

definition poly_local :: NEWHOPE_POLY where
  "poly_local = \<lparr>coeffs = replicate PARAM_N 0\<rparr>"

subsection \<open>The computations\<close>

definition NEWHOPE_accept_computation ::
  "('rng, 'ctx) newhope_env \<Rightarrow> NEWHOPE_POLY \<Rightarrow> NEWHOPE_POLY \<Rightarrow> uint8_t list \<Rightarrow>
   NEWHOPE_POLY \<Rightarrow> NEWHOPE_POLY \<Rightarrow> 'rng \<Rightarrow>
   uint8_t list \<times> NEWHOPE_POLY \<times> NEWHOPE_POLY \<times> 'rng" where
  "NEWHOPE_accept_computation env sp epp rand pk a s =
     (let (ep, s1) = newhope_poly_getnoise env s;
          ep = newhope_poly_ntt env ep;
          bp = newhope_poly_pointwise env a sp;
          bp = newhope_poly_add env bp ep;
          v = newhope_poly_pointwise env pk sp;
          v = newhope_poly_invntt env v;
          v = newhope_poly_add env v epp;
          reconciliation = newhope_helprec env v rand;
          k = newhope_reconcile env v reconciliation
      in (k, bp, reconciliation, s1))"

definition NEWHOPE_finish_computation ::
  "('rng, 'ctx) newhope_env \<Rightarrow> NEWHOPE_POLY \<Rightarrow> NEWHOPE_POLY \<Rightarrow> NEWHOPE_POLY \<Rightarrow>
   uint8_t list" where
  "NEWHOPE_finish_computation env sk bp reconciliation =
     (let v = newhope_poly_pointwise env sk bp;
          v = newhope_poly_invntt env v
      in newhope_reconcile env v reconciliation)"

subsection \<open>The three handshake functions\<close>

text \<open>Each function takes the contents of its output buffers at the call and the state
  of the random source, and returns the buffers and the state at the return.
  \<open>NEWHOPE_offer\<close> overwrites all of \<open>sk\<close>, so \<open>sk\<close> is a result only.\<close>

definition NEWHOPE_offer ::
  "('rng, 'ctx) newhope_env \<Rightarrow> uint8_t list \<Rightarrow> 'rng \<Rightarrow> uint8_t list \<times> NEWHOPE_POLY \<times> 'rng" where
  "NEWHOPE_offer env offermsg s =
     (let (sk, s1) = newhope_poly_getnoise env s;
          sk = newhope_poly_ntt env sk;
          (seed, s2) = RAND_bytes env SEED_LENGTH s1;
          offermsg = store_bytes offermsg NEWHOPE_POLY_LENGTH seed;
          a = newhope_poly_uniform env (drop NEWHOPE_POLY_LENGTH offermsg);
          (e, s3) = newhope_poly_getnoise env s2;
          e = newhope_poly_ntt env e;
          r = newhope_poly_pointwise env sk a;
          pk = newhope_poly_add env e r;
          offermsg = store_bytes offermsg 0 (newhope_poly_tobytes env pk)
      in (offermsg, sk, s3))"

text \<open>The tail both \<open>NEWHOPE_accept\<close> and \<open>NEWHOPE_finish\<close> end with: the
  short-circuit chain of the three SHA-256 calls over the first
  \<open>NEWHOPE_KEY_LENGTH\<close> bytes of \<open>k\<close>. \<open>SHA256_Final\<close> stores the digest at the
  start of \<open>key\<close>.\<close>

definition sha256_of_k ::
  "('rng, 'ctx) newhope_env \<Rightarrow> uint8_t list \<Rightarrow> uint8_t list \<Rightarrow> (error + unit) \<times> uint8_t list" where
  "sha256_of_k env key k =
     (case SHA256_Init env of
        None \<Rightarrow> (Inl HashFailure, key)
      | Some ctx \<Rightarrow>
          (case SHA256_Update env ctx (take NEWHOPE_KEY_LENGTH k) of
             None \<Rightarrow> (Inl HashFailure, key)
           | Some ctx' \<Rightarrow>
               (case SHA256_Final env ctx' of
                  None \<Rightarrow> (Inl HashFailure, key)
                | Some md \<Rightarrow> (Inr (), store_bytes key 0 md))))"

text \<open>\<open>NEWHOPE_accept\<close>, after its length check, in the order of the source: decoding
  the offer message into \<open>pk\<close> and \<open>a\<close> (lines 79 to 84), drawing the noise
  polynomials and the reconciliation randomness (lines 86 to 95), the computation,
  the stores into the accept message and the hash.\<close>

definition NEWHOPE_accept_decode ::
  "('rng, 'ctx) newhope_env \<Rightarrow> uint8_t list \<Rightarrow> NEWHOPE_POLY \<times> NEWHOPE_POLY" where
  "NEWHOPE_accept_decode env offermsg =
     (let a = newhope_poly_uniform env (drop NEWHOPE_POLY_LENGTH offermsg);
          pk = NEWHOPE_POLY_frombytes env offermsg
      in (pk, a))"

definition NEWHOPE_accept_noise ::
  "('rng, 'ctx) newhope_env \<Rightarrow> 'rng \<Rightarrow> NEWHOPE_POLY \<times> NEWHOPE_POLY \<times> uint8_t list \<times> 'rng" where
  "NEWHOPE_accept_noise env s =
     (let (sp, s1) = newhope_poly_getnoise env s;
          sp = newhope_poly_ntt env sp;
          (epp, s2) = newhope_poly_getnoise env s1;
          (rand, s3) = RAND_bytes env 32 s2
      in (sp, epp, rand, s3))"

definition NEWHOPE_accept ::
  "('rng, 'ctx) newhope_env \<Rightarrow> uint8_t list \<Rightarrow> uint8_t list \<Rightarrow> uint8_t list \<Rightarrow> nat \<Rightarrow> 'rng \<Rightarrow>
   (error + unit) \<times> uint8_t list \<times> uint8_t list \<times> 'rng" where
  "NEWHOPE_accept env key acceptmsg offermsg msg_len s =
     (if msg_len \<noteq> NEWHOPE_OFFERMSG_LENGTH then (Inl LengthMismatch, key, acceptmsg, s)
      else
        let (pk, a) = NEWHOPE_accept_decode env offermsg;
            (sp, epp, rand, s1) = NEWHOPE_accept_noise env s;
            (k, bp, c, s2) = NEWHOPE_accept_computation env sp epp rand pk a s1;
            acceptmsg = store_bytes acceptmsg 0 (newhope_poly_tobytes env bp);
            acceptmsg = take NEWHOPE_POLY_LENGTH acceptmsg
                        @ encode_rec c (drop NEWHOPE_POLY_LENGTH acceptmsg);
            (r, key) = sha256_of_k env key k
        in (r, key, acceptmsg, s2))"

text \<open>\<open>NEWHOPE_finish\<close> calls nothing that draws random bytes: the state of the
  random source goes through it unchanged. Lines 121 to 124 decode the accept
  message into \<open>bp\<close> and \<open>c\<close>.\<close>

definition NEWHOPE_finish_decode ::
  "('rng, 'ctx) newhope_env \<Rightarrow> uint8_t list \<Rightarrow> NEWHOPE_POLY \<times> NEWHOPE_POLY" where
  "NEWHOPE_finish_decode env acceptmsg =
     (let bp = NEWHOPE_POLY_frombytes env acceptmsg;
          c = decode_rec (drop NEWHOPE_POLY_LENGTH acceptmsg) poly_local
      in (bp, c))"

definition NEWHOPE_finish ::
  "('rng, 'ctx) newhope_env \<Rightarrow> uint8_t list \<Rightarrow> NEWHOPE_POLY \<Rightarrow> uint8_t list \<Rightarrow> nat \<Rightarrow> 'rng \<Rightarrow>
   (error + unit) \<times> uint8_t list \<times> 'rng" where
  "NEWHOPE_finish env key sk acceptmsg msg_len s =
     (if msg_len \<noteq> NEWHOPE_ACCEPTMSG_LENGTH then (Inl LengthMismatch, key, s)
      else
        let (bp, c) = NEWHOPE_finish_decode env acceptmsg;
            k = NEWHOPE_finish_computation env sk bp c;
            (r, key) = sha256_of_k env key k
        in (r, key, s))"

subsection \<open>The spec's side\<close>

text \<open>Modelled from the spec: what the spec says of the primitives that the claims
  below rest on. A packed ring element has \<open>NEWHOPE_POLY_LENGTH\<close> bytes and
  unpacking reads no more than these; the random source fills the buffer it is given;
  the raw secret has \<open>NEWHOPE_KEY_LENGTH\<close> bytes and a digest
  \<open>SHA256_DIGEST_LENGTH\<close> (spec sections 3, 4.4 and 6).\<close>

definition env_wf :: "('rng, 'ctx) newhope_env \<Rightarrow> bool" where
  "env_wf env =
     ((\<forall>p. length (newhope_poly_tobytes env p) = NEWHOPE_POLY_LENGTH)
      \<and> (\<forall>b. NEWHOPE_POLY_frombytes env b = NEWHOPE_POLY_frombytes env (take NEWHOPE_POLY_LENGTH b))
      \<and> (\<forall>n s. length (fst (RAND_bytes env n s)) = n)
      \<and> (\<forall>v c. length (newhope_reconcile env v c) = NEWHOPE_KEY_LENGTH)
      \<and> (\<forall>ctx md. SHA256_Final env ctx = Some md \<longrightarrow> length md = SHA256_DIGEST_LENGTH))"

text \<open>Modelled from the spec: addition and pointwise multiplication are
  "coefficient-wise modulo Q" (section 4.1), so the order of their arguments does not
  matter.\<close>

definition poly_commutative :: "('rng, 'ctx) newhope_env \<Rightarrow> bool" where
  "poly_commutative env =
     ((\<forall>p q. newhope_poly_add env p q = newhope_poly_add env q p)
      \<and> (\<forall>p q. newhope_poly_pointwise env p q = newhope_poly_pointwise env q p))"

text \<open>The handshake formulas in the words of the spec (section 4.6):
  \<open>pk = a \<cdot> secret + error\<close>, \<open>bp = a \<cdot> secret' + error'\<close>,
  \<open>v = invntt(pk \<cdot> secret') + error''\<close> and \<open>v' = invntt(secret_key \<cdot> bp)\<close>.\<close>

definition spec_pk ::
  "('rng, 'ctx) newhope_env \<Rightarrow> NEWHOPE_POLY \<Rightarrow> NEWHOPE_POLY \<Rightarrow> NEWHOPE_POLY \<Rightarrow> NEWHOPE_POLY" where
  "spec_pk env a secret err = newhope_poly_add env (newhope_poly_pointwise env a secret) err"

definition spec_bp ::
  "('rng, 'ctx) newhope_env \<Rightarrow> NEWHOPE_POLY \<Rightarrow> NEWHOPE_POLY \<Rightarrow> NEWHOPE_POLY \<Rightarrow> NEWHOPE_POLY" where
  "spec_bp env a secret' err' = newhope_poly_add env (newhope_poly_pointwise env a secret') err'"

definition spec_v ::
  "('rng, 'ctx) newhope_env \<Rightarrow> NEWHOPE_POLY \<Rightarrow> NEWHOPE_POLY \<Rightarrow> NEWHOPE_POLY \<Rightarrow> NEWHOPE_POLY" where
  "spec_v env pk secret' err'' =
     newhope_poly_add env (newhope_poly_invntt env (newhope_poly_pointwise env pk secret')) err''"

definition spec_v' ::
  "('rng, 'ctx) newhope_env \<Rightarrow> NEWHOPE_POLY \<Rightarrow> NEWHOPE_POLY \<Rightarrow> NEWHOPE_POLY" where
  "spec_v' env secret_key bp = newhope_poly_invntt env (newhope_poly_pointwise env secret_key bp)"

text \<open>The hash capability as the one-shot function of the spec (section 6).\<close>

definition spec_hash :: "('rng, 'ctx) newhope_env \<Rightarrow> uint8_t list \<Rightarrow> uint8_t list option" where
  "spec_hash env bytes =
     (case SHA256_Init env of
        None \<Rightarrow> None
      | Some ctx \<Rightarrow>
          (case SHA256_Update env ctx bytes of
             None \<Rightarrow> None
           | Some ctx' \<Rightarrow> SHA256_Final env ctx'))"

text \<open>Unpacking a hint in the words of the spec (section 4.4): hint value \<open>k\<close> is
  slot \<open>k mod 4\<close> of byte \<open>k div 4\<close>.\<close>

definition unpack_hint :: "uint8_t list \<Rightarrow> NEWHOPE_POLY" where
  "unpack_hint bytes =
     \<lparr>coeffs = map (\<lambda>k. hint_slot (k mod 4) (bytes ! (k div 4))) [0..<PARAM_N]\<rparr>"

subsection \<open>An instance of the primitives\<close>

text \<open>A small instance of the parameters, for running the model on concrete inputs.
  The random source is a counter; polynomials are added and multiplied coefficient by
  coefficient modulo 12289; a ring element is packed as the low byte of its first
  coefficient, repeated.\<close>

definition poly_map2 ::
  "(uint16_t \<Rightarrow> uint16_t \<Rightarrow> uint16_t) \<Rightarrow> NEWHOPE_POLY \<Rightarrow> NEWHOPE_POLY \<Rightarrow> NEWHOPE_POLY" where
  "poly_map2 f p q = \<lparr>coeffs = map2 f (coeffs p) (coeffs q)\<rparr>"

definition example_env :: "(nat, uint8_t list) newhope_env" where
  "example_env =
     \<lparr>RAND_bytes = (\<lambda>n s. (replicate n (of_nat s), Suc s)),
      newhope_poly_getnoise = (\<lambda>s. (\<lparr>coeffs = replicate PARAM_N (of_nat s)\<rparr>, Suc s)),
      newhope_poly_uniform = (\<lambda>seed. \<lparr>coeffs = replicate PARAM_N (ucast (hd seed))\<rparr>),
      newhope_poly_ntt = (\<lambda>p. p),
      newhope_poly_invntt = (\<lambda>p. p),
      newhope_poly_pointwise = poly_map2 (\<lambda>x y. (x * y) mod 12289),
      newhope_poly_add = poly_map2 (\<lambda>x y. (x + y) mod 12289),
      newhope_poly_tobytes = (\<lambda>p. replicate NEWHOPE_POLY_LENGTH (ucast (hd (coeffs p)))),
      NEWHOPE_POLY_frombytes = (\<lambda>b. \<lparr>coeffs = replicate PARAM_N (ucast (hd b))\<rparr>),
      newhope_helprec = (\<lambda>v rand. \<lparr>coeffs = map (\<lambda>x. x AND 3) (coeffs v)\<rparr>),
      newhope_reconcile = (\<lambda>v c. replicate NEWHOPE_KEY_LENGTH (ucast (hd (coeffs c)))),
      SHA256_Init = Some [],
      SHA256_Update = (\<lambda>ctx bytes. Some (ctx @ bytes)),
      SHA256_Final = (\<lambda>ctx. Some (take SHA256_DIGEST_LENGTH (ctx @ replicate SHA256_DIGEST_LENGTH 0)))\<rparr>"

section \<open>Properties\<close>

subsection \<open>The loops of the codec\<close>

lemma and_3_take_bit: "(x::'a::len word) AND 3 = take_bit 2 x"
  using take_bit_eq_mask[of 2 x] by (simp add: mask_eq_exp_minus_1)

lemma take_bit_2_less_4: "take_bit 2 (x::uint16_t) < 4"
  using and_mask_less'[of 2 x] by (simp add: take_bit_eq_mask)

lemma less_4_take_bit: "(x::uint16_t) < 4 \<Longrightarrow> take_bit 2 x = x"
  using less_mask_eq[of x 2] by (simp add: take_bit_eq_mask)

lemma hint_slot_take_bit: "take_bit 2 (hint_slot j b) = hint_slot j b"
  unfolding hint_slot_def
  by (rule bit_word_eqI) (auto simp add: bit_simps)

lemma hint_slot_less_4: "hint_slot j b < 4"
  using take_bit_2_less_4[of "hint_slot j b"] by (simp only: hint_slot_take_bit)

lemma decode_slots:
  "(ucast ((ucast (b::uint8_t) :: c_int) AND 0x03) :: uint16_t) = hint_slot 0 b"
  "(ucast (drop_bit 2 (ucast b :: c_int) AND 0x03) :: uint16_t) = hint_slot 1 b"
  "(ucast (drop_bit 4 (ucast b :: c_int) AND 0x03) :: uint16_t) = hint_slot 2 b"
  "(ucast (drop_bit 6 (ucast b :: c_int)) :: uint16_t) = hint_slot 3 b"
  unfolding hint_slot_def and_3_take_bit
  by (rule bit_word_eqI, auto simp add: bit_simps dest: bit_imp_le_length)+

lemma pack4_slots_take_bit:
  "hint_slot 0 (pack4 (take_bit 2 c0) (take_bit 2 c1) (take_bit 2 c2) (take_bit 2 c3)) = take_bit 2 c0"
  "hint_slot 1 (pack4 (take_bit 2 c0) (take_bit 2 c1) (take_bit 2 c2) (take_bit 2 c3)) = take_bit 2 c1"
  "hint_slot 2 (pack4 (take_bit 2 c0) (take_bit 2 c1) (take_bit 2 c2) (take_bit 2 c3)) = take_bit 2 c2"
  "hint_slot 3 (pack4 (take_bit 2 c0) (take_bit 2 c1) (take_bit 2 c2) (take_bit 2 c3)) = take_bit 2 c3"
  unfolding hint_slot_def pack4_def
  by (rule bit_word_eqI, auto simp add: bit_simps)+

lemma pack4_slots:
  assumes "c0 < 4" "c1 < 4" "c2 < 4" "c3 < 4"
  shows "hint_slot 0 (pack4 c0 c1 c2 c3) = c0"
    and "hint_slot 1 (pack4 c0 c1 c2 c3) = c1"
    and "hint_slot 2 (pack4 c0 c1 c2 c3) = c2"
    and "hint_slot 3 (pack4 c0 c1 c2 c3) = c3"
  using pack4_slots_take_bit[of c0 c1 c2 c3] assms by (simp_all add: less_4_take_bit)

lemma encode_rec_byte_pack4:
  "encode_rec_byte c i =
     pack4 (coeffs c ! (4 * i)) (coeffs c ! (4 * i + 1)) (coeffs c ! (4 * i + 2)) (coeffs c ! (4 * i + 3))"
  by (simp add: encode_rec_byte_def pack4_def)

lemma lt4_cases: "j < 4 \<Longrightarrow> j = 0 \<or> j = 1 \<or> j = 2 \<or> j = (3::nat)"
  by arith

lemma encode_rec_byte_slot:
  assumes small: "\<forall>x \<in> set (coeffs c). x < 4" and i: "4 * i + 3 < length (coeffs c)" and j: "j < 4"
  shows "hint_slot j (encode_rec_byte c i) = coeffs c ! (4 * i + j)"
proof -
  have "coeffs c ! (4 * i) < 4" "coeffs c ! (4 * i + 1) < 4"
       "coeffs c ! (4 * i + 2) < 4" "coeffs c ! (4 * i + 3) < 4"
    using small i by simp_all
  from pack4_slots[OF this] lt4_cases[OF j] show ?thesis
    by (auto simp add: encode_rec_byte_pack4)
qed

lemma encode_rec_loop_length: "length (encode_rec_loop i c r) = length r"
  by (induction i c r rule: encode_rec_loop.induct)
     (subst encode_rec_loop.simps, simp)

lemma encode_rec_loop_nth:
  "j < length r \<Longrightarrow>
   encode_rec_loop i c r ! j =
     (if i \<le> j \<and> j < PARAM_N div 4 then encode_rec_byte c j else r ! j)"
proof (induction i c r rule: encode_rec_loop.induct)
  case (1 i c r)
  show ?case
  proof (cases "i < PARAM_N div 4")
    case True
    have step: "encode_rec_loop i c r = encode_rec_loop (i + 1) c (r[i := encode_rec_byte c i])"
      using True by (subst encode_rec_loop.simps) simp
    have IH: "encode_rec_loop (i + 1) c (r[i := encode_rec_byte c i]) ! j =
      (if i + 1 \<le> j \<and> j < PARAM_N div 4 then encode_rec_byte c j
       else r[i := encode_rec_byte c i] ! j)"
      using 1 True by simp
    show ?thesis
    proof (cases "j = i")
      case True
      with \<open>i < PARAM_N div 4\<close> 1(2) IH show ?thesis by (simp add: step)
    next
      case False
      with IH show ?thesis by (auto simp add: step)
    qed
  next
    case False
    then show ?thesis by (subst encode_rec_loop.simps) auto
  qed
qed

lemma decode_rec_step_length: "length (decode_rec_step r i cs) = length cs"
  by (simp add: decode_rec_step_def)

lemma decode_rec_step_nth:
  assumes "4 * i + 3 < length cs" "k < length cs"
  shows "decode_rec_step r i cs ! k =
           (if k div 4 = i then hint_slot (k mod 4) (r ! i) else cs ! k)"
proof (cases "k div 4 = i")
  case True
  have k: "k = 4 * i + k mod 4" using True by auto
  have "k mod 4 < 4" by simp
  from lt4_cases[OF this] show ?thesis
  proof (elim disjE)
    assume m: "k mod 4 = 0"
    then have "k = 4 * i + 0" using k by simp
    with assms(1) True m show ?thesis
      by (simp add: decode_rec_step_def decode_slots nth_list_update)
  next
    assume m: "k mod 4 = 1"
    then have "k = 4 * i + 1" using k by simp
    with assms(1) True m show ?thesis
      by (simp add: decode_rec_step_def decode_slots nth_list_update)
  next
    assume m: "k mod 4 = 2"
    then have "k = 4 * i + 2" using k by simp
    with assms(1) True m show ?thesis
      by (simp add: decode_rec_step_def decode_slots nth_list_update)
  next
    assume m: "k mod 4 = 3"
    then have "k = 4 * i + 3" using k by simp
    with assms(1) True m show ?thesis
      by (simp add: decode_rec_step_def decode_slots nth_list_update)
  qed
next
  case False
  then have "k \<noteq> 4 * i" "k \<noteq> 4 * i + 1" "k \<noteq> 4 * i + 2" "k \<noteq> 4 * i + 3" by arith+
  then show ?thesis using False
    by (simp add: decode_rec_step_def nth_list_update)
qed

lemma decode_rec_loop_length: "length (coeffs (decode_rec_loop i r c)) = length (coeffs c)"
  by (induction i r c rule: decode_rec_loop.induct)
     (subst decode_rec_loop.simps, simp add: decode_rec_step_length)

lemma decode_rec_loop_nth:
  "PARAM_N \<le> length (coeffs c) \<Longrightarrow> k < length (coeffs c) \<Longrightarrow>
   coeffs (decode_rec_loop i r c) ! k =
     (if 4 * i \<le> k \<and> k < PARAM_N then hint_slot (k mod 4) (r ! (k div 4)) else coeffs c ! k)"
proof (induction i r c rule: decode_rec_loop.induct)
  case (1 i r c)
  show ?case
  proof (cases "i < PARAM_N div 4")
    case True
    then have "4 * i + 3 < length (coeffs c)" using 1(2) by (simp add: PARAM_N_def)
    with 1 True show ?thesis
      apply (subst decode_rec_loop.simps)
      apply (simp add: decode_rec_step_length decode_rec_step_nth)
      apply (auto simp add: PARAM_N_def)
      done
  next
    case False
    then show ?thesis by (subst decode_rec_loop.simps) (auto simp add: PARAM_N_def)
  qed
qed


lemma encode_rec_length: "length (encode_rec h r) = length r"
  by (simp add: encode_rec_def encode_rec_loop_length)

lemma encode_rec_nth:
  "i < PARAM_N div 4 \<Longrightarrow> i < length r \<Longrightarrow> encode_rec h r ! i = encode_rec_byte h i"
  by (simp add: encode_rec_def encode_rec_loop_nth)

lemma decode_rec_length: "length (coeffs (decode_rec r c)) = length (coeffs c)"
  by (simp add: decode_rec_def decode_rec_loop_length)

lemma decode_rec_nth:
  "poly_wf c \<Longrightarrow> k < PARAM_N \<Longrightarrow>
   coeffs (decode_rec r c) ! k = hint_slot (k mod 4) (r ! (k div 4))"
  by (simp add: decode_rec_def decode_rec_loop_nth poly_wf_def)

lemma decode_rec_hint_wf: "poly_wf c \<Longrightarrow> hint_wf (decode_rec r c)"
  unfolding hint_wf_def
proof (intro conjI ballI)
  assume wf: "poly_wf c"
  then show "poly_wf (decode_rec r c)"
    by (simp add: poly_wf_def decode_rec_length)
  fix x assume "x \<in> set (coeffs (decode_rec r c))"
  then obtain k where k: "k < length (coeffs (decode_rec r c))" and x: "x = coeffs (decode_rec r c) ! k"
    by (auto simp add: in_set_conv_nth)
  from k wf have "k < PARAM_N" by (simp add: decode_rec_length poly_wf_def)
  with wf x show "x < 4" by (simp add: decode_rec_nth hint_slot_less_4)
qed

lemma coeffs_decode_encode:
  assumes h: "hint_wf h" and r: "length r = PARAM_N div 4" and c: "poly_wf c"
  shows "coeffs (decode_rec (encode_rec h r) c) = coeffs h"
proof (rule nth_equalityI)
  show "length (coeffs (decode_rec (encode_rec h r) c)) = length (coeffs h)"
    using h c by (simp add: decode_rec_length hint_wf_def poly_wf_def)
next
  fix k assume "k < length (coeffs (decode_rec (encode_rec h r) c))"
  with c have k: "k < PARAM_N" by (simp add: decode_rec_length poly_wf_def)
  then have kd: "k div 4 < PARAM_N div 4" by (simp add: PARAM_N_def)
  have len: "length (coeffs h) = PARAM_N" using h by (simp add: hint_wf_def poly_wf_def)
  have "4 * (k div 4) + 3 < length (coeffs h)" using kd len by (simp add: PARAM_N_def)
  moreover have "\<forall>x \<in> set (coeffs h). x < 4" using h by (simp add: hint_wf_def)
  moreover have "k mod 4 < 4" by simp
  ultimately have "hint_slot (k mod 4) (encode_rec_byte h (k div 4)) = coeffs h ! (4 * (k div 4) + k mod 4)"
    by (simp add: encode_rec_byte_slot)
  then show "coeffs (decode_rec (encode_rec h r) c) ! k = coeffs h ! k"
    using c k kd r by (simp add: decode_rec_nth encode_rec_nth)
qed

subsection \<open>Claims about the codec of the reconciliation data\<close>

text \<open>C5: for every reconciliation hint \<open>h\<close> of \<open>PARAM_N\<close> values, each in [0,4),
  decoding the bytes that \<open>encode_rec\<close> packs from \<open>h\<close> gives \<open>h\<close> back, coefficient
  for coefficient. The buffer \<open>r\<close> that receives the bytes has \<open>PARAM_N / 4\<close> bytes
  of any content, and the destination \<open>c\<close> of the decoding is any polynomial.\<close>

theorem decode_rec_encode_rec:
  assumes "hint_wf h" and "length r = PARAM_N div 4" and "poly_wf c"
  shows "decode_rec (encode_rec h r) c = h"
  using coeffs_decode_encode[OF assms]
  by (cases h, cases "decode_rec (encode_rec h r) c") simp

theorem decode_rec_encode_rec_witness:
  "hint_wf \<lparr>coeffs = replicate 1024 3\<rparr> \<and> length (replicate 256 (0::uint8_t)) = PARAM_N div 4
   \<and> poly_wf poly_local
   \<and> decode_rec (encode_rec \<lparr>coeffs = replicate 1024 3\<rparr> (replicate 256 0)) poly_local
       = \<lparr>coeffs = replicate 1024 3\<rparr>"
proof -
  have 1: "hint_wf \<lparr>coeffs = replicate 1024 3\<rparr>"
    by (simp add: hint_wf_def poly_wf_def PARAM_N_def)
  have 2: "length (replicate 256 (0::uint8_t)) = PARAM_N div 4"
    by (simp add: PARAM_N_def)
  have 3: "poly_wf poly_local"
    by (simp add: poly_wf_def poly_local_def)
  from 1 2 3 decode_rec_encode_rec[OF 1 2 3] show ?thesis by simp
qed

text \<open>C6: for every hint \<open>h\<close> of \<open>PARAM_N\<close> 2-bit values, the packed hint has
  \<open>PARAM_N / 4\<close> bytes, and slot \<open>j\<close> of byte \<open>i\<close> (bit positions
  \<open>[2j, 2j + 2)\<close>) holds hint value \<open>4i + j\<close>; \<open>decode_rec\<close> reads coefficient
  \<open>4i + j\<close> from that same slot of byte \<open>i\<close> of whatever buffer it is given.\<close>

theorem hint_byte_layout:
  assumes "hint_wf h" and "length r = PARAM_N div 4" and "poly_wf c"
    and "i < PARAM_N div 4" and "j < 4"
  shows "length (encode_rec h r) = PARAM_N div 4
         \<and> hint_slot j (encode_rec h r ! i) = coeffs h ! (4 * i + j)
         \<and> coeffs (decode_rec r c) ! (4 * i + j) = hint_slot j (r ! i)"
proof (intro conjI)
  show "length (encode_rec h r) = PARAM_N div 4"
    using assms(2) by (simp add: encode_rec_length)
  have "4 * i + 3 < length (coeffs h)"
    using assms(1,4) by (simp add: hint_wf_def poly_wf_def PARAM_N_def)
  moreover have "\<forall>x \<in> set (coeffs h). x < 4" using assms(1) by (simp add: hint_wf_def)
  ultimately have "hint_slot j (encode_rec_byte h i) = coeffs h ! (4 * i + j)"
    using assms(5) by (simp add: encode_rec_byte_slot)
  then show "hint_slot j (encode_rec h r ! i) = coeffs h ! (4 * i + j)"
    using assms(2,4) by (simp add: encode_rec_nth)
  have "4 * i + j < PARAM_N" using assms(4,5) by (simp add: PARAM_N_def)
  moreover have "(4 * i + j) div 4 = i" "(4 * i + j) mod 4 = j" using assms(5) by simp_all
  ultimately show "coeffs (decode_rec r c) ! (4 * i + j) = hint_slot j (r ! i)"
    using assms(3) by (simp add: decode_rec_nth)
qed

theorem hint_byte_layout_witness:
  "hint_wf \<lparr>coeffs = replicate 1024 2\<rparr> \<and> length (replicate 256 (0x6C::uint8_t)) = PARAM_N div 4
   \<and> poly_wf poly_local \<and> (5::nat) < PARAM_N div 4 \<and> (2::nat) < 4
   \<and> length (encode_rec \<lparr>coeffs = replicate 1024 2\<rparr> (replicate 256 0x6C)) = PARAM_N div 4
   \<and> hint_slot 2 (encode_rec \<lparr>coeffs = replicate 1024 2\<rparr> (replicate 256 0x6C) ! 5) = 2
   \<and> coeffs (decode_rec (replicate 256 0x6C) poly_local) ! 22 = 2"
proof -
  have 1: "hint_wf \<lparr>coeffs = replicate 1024 2\<rparr>"
    by (simp add: hint_wf_def poly_wf_def PARAM_N_def)
  have 2: "length (replicate 256 (0x6C::uint8_t)) = PARAM_N div 4"
    by (simp add: PARAM_N_def)
  have 3: "poly_wf poly_local"
    by (simp add: poly_wf_def poly_local_def)
  have 4: "(5::nat) < PARAM_N div 4"
    by (simp add: PARAM_N_def)
  have 5: "(2::nat) < 4" by simp
  have slot: "hint_slot 2 (0x6C::uint8_t) = 2"
    by (simp add: hint_slot_def drop_bit_eq_div take_bit_eq_mod)
  from 1 2 3 4 5 hint_byte_layout[OF 1 2 3 4 5] slot show ?thesis by simp
qed

text \<open>C9: for every byte buffer of length \<open>PARAM_N / 4\<close>, \<open>decode_rec\<close> produces a
  polynomial of \<open>PARAM_N\<close> coefficients that all lie in [0,4), whatever the bytes
  are.\<close>

theorem decode_rec_two_bits:
  assumes "length r = PARAM_N div 4" and "poly_wf c"
  shows "length (coeffs (decode_rec r c)) = PARAM_N
         \<and> (\<forall>x \<in> set (coeffs (decode_rec r c)). x < 4)"
  using decode_rec_hint_wf[OF assms(2)] by (simp add: hint_wf_def poly_wf_def)

theorem decode_rec_two_bits_witness:
  "length (replicate 256 (0xFF::uint8_t)) = PARAM_N div 4 \<and> poly_wf poly_local
   \<and> hint_wf (decode_rec (replicate 256 0xFF) poly_local)"
proof -
  have 1: "length (replicate 256 (0xFF::uint8_t)) = PARAM_N div 4"
    by (simp add: PARAM_N_def)
  have 2: "poly_wf poly_local"
    by (simp add: poly_wf_def poly_local_def)
  from 1 2 decode_rec_two_bits[OF 1 2] show ?thesis
    by (simp add: hint_wf_def poly_wf_def)
qed

subsection \<open>The handshake functions\<close>

lemma sha256_of_k_not_length: "fst (sha256_of_k env key k) \<noteq> Inl LengthMismatch"
  by (simp add: sha256_of_k_def split: option.splits)

lemma NEWHOPE_accept_wrong_length:
  "msg_len \<noteq> NEWHOPE_OFFERMSG_LENGTH \<Longrightarrow>
   NEWHOPE_accept env key acceptmsg offermsg msg_len s = (Inl LengthMismatch, key, acceptmsg, s)"
  by (simp add: NEWHOPE_accept_def)

lemma NEWHOPE_finish_wrong_length:
  "msg_len \<noteq> NEWHOPE_ACCEPTMSG_LENGTH \<Longrightarrow>
   NEWHOPE_finish env key sk acceptmsg msg_len s = (Inl LengthMismatch, key, s)"
  by (simp add: NEWHOPE_finish_def)

lemma NEWHOPE_accept_right_length:
  "fst (NEWHOPE_accept env key acceptmsg offermsg NEWHOPE_OFFERMSG_LENGTH s) \<noteq> Inl LengthMismatch"
  using sha256_of_k_not_length
  by (simp add: NEWHOPE_accept_def Let_def split_def)

lemma NEWHOPE_finish_right_length:
  "fst (NEWHOPE_finish env key sk acceptmsg NEWHOPE_ACCEPTMSG_LENGTH s) \<noteq> Inl LengthMismatch"
  using sha256_of_k_not_length
  by (simp add: NEWHOPE_finish_def Let_def split_def)

lemma store_bytes_whole: "length bs = length buf \<Longrightarrow> store_bytes buf 0 bs = bs"
  by (simp add: store_bytes_def)

lemma store_bytes_prefix: "store_bytes buf 0 bs = bs @ drop (length bs) buf"
  by (simp add: store_bytes_def)

lemma store_bytes_suffix:
  "off + length bs = length buf \<Longrightarrow> store_bytes buf off bs = take off buf @ bs"
  by (simp add: store_bytes_def)

lemma sha256_of_k_spec_hash:
  "sha256_of_k env key k =
     (case spec_hash env (take NEWHOPE_KEY_LENGTH k) of
        None \<Rightarrow> (Inl HashFailure, key)
      | Some md \<Rightarrow> (Inr (), store_bytes key 0 md))"
  by (simp add: sha256_of_k_def spec_hash_def split: option.splits)

lemma spec_hash_length:
  "env_wf env \<Longrightarrow> spec_hash env bytes = Some md \<Longrightarrow> length md = SHA256_DIGEST_LENGTH"
  by (auto simp add: env_wf_def spec_hash_def split: option.splits)

lemma sha256_of_k_digest:
  assumes "env_wf env" and "length key = SHA256_DIGEST_LENGTH"
  shows "sha256_of_k env key k =
     (case spec_hash env (take NEWHOPE_KEY_LENGTH k) of
        None \<Rightarrow> (Inl HashFailure, key)
      | Some md \<Rightarrow> (Inr (), md))"
  using assms spec_hash_length[OF assms(1)]
  by (auto simp add: sha256_of_k_spec_hash store_bytes_whole split: option.splits)

lemma decode_rec_unpack_hint:
  assumes "poly_wf c"
  shows "decode_rec r c = unpack_hint r"
proof -
  have "coeffs (decode_rec r c) = coeffs (unpack_hint r)"
  proof (rule nth_equalityI)
    show "length (coeffs (decode_rec r c)) = length (coeffs (unpack_hint r))"
      using assms by (simp add: decode_rec_length unpack_hint_def poly_wf_def)
  next
    fix k assume "k < length (coeffs (decode_rec r c))"
    with assms have "k < PARAM_N" by (simp add: decode_rec_length poly_wf_def)
    with assms show "coeffs (decode_rec r c) ! k = coeffs (unpack_hint r) ! k"
      by (simp add: decode_rec_nth unpack_hint_def)
  qed
  then show ?thesis by (cases "decode_rec r c", cases "unpack_hint r") simp
qed

lemma poly_wf_poly_local: "poly_wf poly_local"
  by (simp add: poly_wf_def poly_local_def)

lemma lengths_positive:
  "0 < NEWHOPE_POLY_LENGTH" "0 < PARAM_N" "0 < NEWHOPE_KEY_LENGTH" "0 < SHA256_DIGEST_LENGTH"
  by (simp_all add: NEWHOPE_POLY_LENGTH_def PARAM_N_def NEWHOPE_KEY_LENGTH_def
      SHA256_DIGEST_LENGTH_def)

lemma message_lengths:
  "NEWHOPE_POLY_LENGTH = 1792" "NEWHOPE_OFFERMSG_LENGTH = 1824" "NEWHOPE_ACCEPTMSG_LENGTH = 2048"
  by (simp_all add: NEWHOPE_POLY_LENGTH_def NEWHOPE_OFFERMSG_LENGTH_def
      NEWHOPE_ACCEPTMSG_LENGTH_def PARAM_N_def SEED_LENGTH_def)

lemma env_wf_example_env: "env_wf example_env"
  using lengths_positive(1)
  by (simp add: env_wf_def example_env_def hd_take min_def)

lemma poly_map2_commute: "(\<And>x y. f x y = f y x) \<Longrightarrow> poly_map2 f p q = poly_map2 f q p"
  unfolding poly_map2_def
  by (subst zip_commute) (simp add: split_def)

lemma poly_commutative_example_env: "poly_commutative example_env"
  by (simp add: poly_commutative_def example_env_def poly_map2_commute mult.commute add.commute)

lemma hd_coeffs_unpack_hint: "hd (coeffs (unpack_hint r)) = hint_slot 0 (r ! 0)"
  using lengths_positive(2) by (simp add: unpack_hint_def hd_map)

lemma sha256_of_k_same:
  assumes "env_wf env" and "length keyA = SHA256_DIGEST_LENGTH" and "length keyB = SHA256_DIGEST_LENGTH"
  shows "fst (sha256_of_k env keyA k) = fst (sha256_of_k env keyB k)
         \<and> (fst (sha256_of_k env keyA k) = Inr () \<longrightarrow>
              snd (sha256_of_k env keyA k) = snd (sha256_of_k env keyB k)
              \<and> length (snd (sha256_of_k env keyA k)) = SHA256_DIGEST_LENGTH)"
  using spec_hash_length[OF assms(1)]
  by (auto simp add: sha256_of_k_digest[OF assms(1,2)] sha256_of_k_digest[OF assms(1,3)]
      split: option.splits)

lemma length_store_bytes:
  "off + length bs \<le> length buf \<Longrightarrow> length (store_bytes buf off bs) = length buf"
  by (simp add: store_bytes_def)

lemma length_NEWHOPE_offer:
  assumes "env_wf env" and "length offermsg0 = NEWHOPE_OFFERMSG_LENGTH"
  shows "length (fst (NEWHOPE_offer env offermsg0 s)) = NEWHOPE_OFFERMSG_LENGTH"
proof -
  have tb: "\<And>p. length (newhope_poly_tobytes env p) = NEWHOPE_POLY_LENGTH"
    using assms(1) by (simp add: env_wf_def)
  have rb: "\<And>n t. length (fst (RAND_bytes env n t)) = n"
    using assms(1) by (simp add: env_wf_def)
  show ?thesis
    using assms(2)
    by (simp add: NEWHOPE_offer_def Let_def split_def length_store_bytes tb rb
        NEWHOPE_OFFERMSG_LENGTH_def)
qed

lemma length_NEWHOPE_accept:
  assumes "env_wf env" and "length acceptmsg0 = NEWHOPE_ACCEPTMSG_LENGTH"
  shows "length (fst (snd (snd (NEWHOPE_accept env key acceptmsg0 offermsg msg_len s))))
           = NEWHOPE_ACCEPTMSG_LENGTH"
proof -
  have tb: "\<And>p. length (newhope_poly_tobytes env p) = NEWHOPE_POLY_LENGTH"
    using assms(1) by (simp add: env_wf_def)
  show ?thesis
    using assms(2)
    by (simp add: NEWHOPE_accept_def Let_def split_def length_store_bytes tb encode_rec_length
        NEWHOPE_ACCEPTMSG_LENGTH_def)
qed

lemma finish_decode_packed:
  assumes "env_wf env" and "hint_wf c" and "length r = PARAM_N div 4"
    and "length packed = NEWHOPE_POLY_LENGTH"
  shows "NEWHOPE_finish_decode env (packed @ encode_rec c r) = (NEWHOPE_POLY_frombytes env packed, c)"
proof -
  have "NEWHOPE_POLY_frombytes env (packed @ encode_rec c r)
          = NEWHOPE_POLY_frombytes env (take NEWHOPE_POLY_LENGTH (packed @ encode_rec c r))"
    using assms(1) unfolding env_wf_def by blast
  then show ?thesis
    using assms(4) coeffs_decode_encode[OF assms(2,3) poly_wf_poly_local]
    by (cases c, cases "decode_rec (encode_rec c r) poly_local")
       (simp add: NEWHOPE_finish_decode_def)
qed

subsection \<open>Claims about the handshake functions\<close>

text \<open>C1: a run with the wiring of the protocol: the offer message of \<open>NEWHOPE_offer\<close>
  goes to \<open>NEWHOPE_accept\<close>, the accept message and the secret key of the offer go to
  \<open>NEWHOPE_finish\<close>, each message with its own length. The messages have the lengths
  the two functions expect. \<open>kB\<close> is the raw secret that \<open>NEWHOPE_accept_computation\<close>
  returns to \<open>NEWHOPE_accept\<close>, \<open>kA\<close> the one that \<open>NEWHOPE_finish_computation\<close>
  returns to \<open>NEWHOPE_finish\<close>. Whenever reconciliation gives both sides the same raw
  secret, both functions return the same result and, on success, the same session key of
  32 bytes.\<close>

theorem handshake_agreement:
  assumes "env_wf env"
    and "length offermsg0 = NEWHOPE_OFFERMSG_LENGTH"
    and "length acceptmsg0 = NEWHOPE_ACCEPTMSG_LENGTH"
    and "length keyA0 = SHA256_DIGEST_LENGTH"
    and "length keyB0 = SHA256_DIGEST_LENGTH"
  shows "(let (offermsg, sk, s1) = NEWHOPE_offer env offermsg0 s0;
              (pk, a) = NEWHOPE_accept_decode env offermsg;
              (sp, epp, rand, s2) = NEWHOPE_accept_noise env s1;
              (kB, bp, c, s3) = NEWHOPE_accept_computation env sp epp rand pk a s2;
              (rB, keyB, acceptmsg, s4) =
                 NEWHOPE_accept env keyB0 acceptmsg0 offermsg (length offermsg) s1;
              (bp', c') = NEWHOPE_finish_decode env acceptmsg;
              kA = NEWHOPE_finish_computation env sk bp' c';
              (rA, keyA, s5) =
                 NEWHOPE_finish env keyA0 sk acceptmsg (length acceptmsg) s4
          in length offermsg = NEWHOPE_OFFERMSG_LENGTH
             \<and> length acceptmsg = NEWHOPE_ACCEPTMSG_LENGTH
             \<and> (kA = kB \<longrightarrow>
                  rA = rB \<and> (rA = Inr () \<longrightarrow> keyA = keyB \<and> length keyA = SHA256_DIGEST_LENGTH)))"
proof -
  obtain offermsg sk s1 where offer: "NEWHOPE_offer env offermsg0 s0 = (offermsg, sk, s1)"
    by (metis prod_cases3)
  obtain pk a where dec: "NEWHOPE_accept_decode env offermsg = (pk, a)"
    by force
  obtain sp epp rand s2 where noise: "NEWHOPE_accept_noise env s1 = (sp, epp, rand, s2)"
    by (metis prod_cases4)
  obtain kB bp c s3 where comp:
    "NEWHOPE_accept_computation env sp epp rand pk a s2 = (kB, bp, c, s3)"
    by (metis prod_cases4)
  have lo: "length offermsg = NEWHOPE_OFFERMSG_LENGTH"
    using length_NEWHOPE_offer[OF assms(1,2), of s0] by (simp add: offer)
  obtain rB keyB where hashB: "sha256_of_k env keyB0 kB = (rB, keyB)"
    by force
  obtain acceptmsg where accept:
    "NEWHOPE_accept env keyB0 acceptmsg0 offermsg NEWHOPE_OFFERMSG_LENGTH s1
       = (rB, keyB, acceptmsg, s3)"
    by (simp add: NEWHOPE_accept_def dec noise comp hashB Let_def)
  have la: "length acceptmsg = NEWHOPE_ACCEPTMSG_LENGTH"
    using length_NEWHOPE_accept[OF assms(1,3), of keyB0 offermsg NEWHOPE_OFFERMSG_LENGTH s1]
    by (simp add: accept)
  obtain bp' c' where fdec: "NEWHOPE_finish_decode env acceptmsg = (bp', c')"
    by force
  obtain rA keyA where hashA:
    "sha256_of_k env keyA0 (NEWHOPE_finish_computation env sk bp' c') = (rA, keyA)"
    by force
  have finish: "NEWHOPE_finish env keyA0 sk acceptmsg NEWHOPE_ACCEPTMSG_LENGTH s3 = (rA, keyA, s3)"
    by (simp add: NEWHOPE_finish_def fdec hashA Let_def)
  have "rA = rB \<and> (rA = Inr () \<longrightarrow> keyA = keyB \<and> length keyA = SHA256_DIGEST_LENGTH)"
    if "NEWHOPE_finish_computation env sk bp' c' = kB"
    using sha256_of_k_same[OF assms(1,4,5), of kB] hashA hashB that by auto
  then show ?thesis
    by (auto simp add: offer lo dec noise comp accept la fdec finish)
qed

theorem handshake_agreement_witness:
  "env_wf example_env \<and> length (replicate 32 (0xFF::uint8_t)) = SHA256_DIGEST_LENGTH
   \<and> length (replicate 32 (0::uint8_t)) = SHA256_DIGEST_LENGTH
   \<and> length (replicate 1824 (0::uint8_t)) = NEWHOPE_OFFERMSG_LENGTH
   \<and> length (replicate 2048 (0::uint8_t)) = NEWHOPE_ACCEPTMSG_LENGTH
   \<and> NEWHOPE_offer example_env (replicate 1824 0) 3
       = (replicate 1792 17 @ replicate 32 4, \<lparr>coeffs = replicate 1024 3\<rparr>, 6)
   \<and> NEWHOPE_accept example_env (replicate 32 0) (replicate 2048 0)
         (replicate 1792 17 @ replicate 32 4) 1824 6
       = (Inr (), replicate 32 1,
          replicate 1792 33 @ encode_rec \<lparr>coeffs = replicate 1024 1\<rparr> (replicate 256 0), 10)
   \<and> fst (NEWHOPE_finish example_env (replicate 32 0xFF) \<lparr>coeffs = replicate 1024 3\<rparr>
         (replicate 1792 33 @ encode_rec \<lparr>coeffs = replicate 1024 1\<rparr> (replicate 256 0)) 2048 10)
       = Inr ()
   \<and> fst (snd (NEWHOPE_finish example_env (replicate 32 0xFF) \<lparr>coeffs = replicate 1024 3\<rparr>
         (replicate 1792 33 @ encode_rec \<lparr>coeffs = replicate 1024 1\<rparr> (replicate 256 0)) 2048 10))
       = replicate 32 1"
proof -
  have 1: "length (replicate 32 (0xFF::uint8_t)) = SHA256_DIGEST_LENGTH"
    by (simp add: SHA256_DIGEST_LENGTH_def)
  have 2: "length (replicate 32 (0::uint8_t)) = SHA256_DIGEST_LENGTH"
    by (simp add: SHA256_DIGEST_LENGTH_def)
  have 3: "length (replicate 1824 (0::uint8_t)) = NEWHOPE_OFFERMSG_LENGTH"
    by (simp add: message_lengths)
  have 4: "length (replicate 2048 (0::uint8_t)) = NEWHOPE_ACCEPTMSG_LENGTH"
    by (simp add: message_lengths)
  have offer: "NEWHOPE_offer example_env (replicate 1824 0) 3
       = (replicate 1792 17 @ replicate 32 4, \<lparr>coeffs = replicate 1024 3\<rparr>, 6)"
    by (simp add: NEWHOPE_offer_def example_env_def poly_map2_def store_bytes_def Let_def
        PARAM_N_def SEED_LENGTH_def message_lengths)
  have dec: "NEWHOPE_accept_decode example_env (replicate 1792 17 @ replicate 32 4)
       = (\<lparr>coeffs = replicate 1024 17\<rparr>, \<lparr>coeffs = replicate 1024 4\<rparr>)"
    by (simp add: NEWHOPE_accept_decode_def example_env_def PARAM_N_def message_lengths)
  have noise: "NEWHOPE_accept_noise example_env 6
       = (\<lparr>coeffs = replicate 1024 6\<rparr>, \<lparr>coeffs = replicate 1024 7\<rparr>, replicate 32 8, 9)"
    by (simp add: NEWHOPE_accept_noise_def example_env_def PARAM_N_def)
  have comp: "NEWHOPE_accept_computation example_env \<lparr>coeffs = replicate 1024 6\<rparr>
        \<lparr>coeffs = replicate 1024 7\<rparr> (replicate 32 8) \<lparr>coeffs = replicate 1024 17\<rparr>
        \<lparr>coeffs = replicate 1024 4\<rparr> 9
       = (replicate 32 1, \<lparr>coeffs = replicate 1024 33\<rparr>, \<lparr>coeffs = replicate 1024 1\<rparr>, 10)"
    by (simp add: NEWHOPE_accept_computation_def example_env_def poly_map2_def PARAM_N_def
        NEWHOPE_KEY_LENGTH_def)
  have hash: "sha256_of_k example_env (replicate 32 0) (replicate 32 1) = (Inr (), replicate 32 1)"
    by (simp add: sha256_of_k_def example_env_def store_bytes_def NEWHOPE_KEY_LENGTH_def
        SHA256_DIGEST_LENGTH_def)
  have accept: "NEWHOPE_accept example_env (replicate 32 0) (replicate 2048 0)
         (replicate 1792 17 @ replicate 32 4) 1824 6
       = (Inr (), replicate 32 1,
          replicate 1792 33 @ encode_rec \<lparr>coeffs = replicate 1024 1\<rparr> (replicate 256 0), 10)"
    by (simp add: NEWHOPE_accept_def dec noise comp hash message_lengths store_bytes_def,
        simp add: example_env_def message_lengths)
  have hint: "hint_wf \<lparr>coeffs = replicate 1024 1\<rparr>"
    by (simp add: hint_wf_def poly_wf_def PARAM_N_def)
  have fdec: "NEWHOPE_finish_decode example_env
         (replicate 1792 33 @ encode_rec \<lparr>coeffs = replicate 1024 1\<rparr> (replicate 256 0))
       = (\<lparr>coeffs = replicate 1024 33\<rparr>, \<lparr>coeffs = replicate 1024 1\<rparr>)"
    using finish_decode_packed[OF env_wf_example_env hint, of "replicate 256 0" "replicate 1792 33"]
    by (simp add: PARAM_N_def message_lengths, simp add: example_env_def PARAM_N_def)
  have fcomp: "NEWHOPE_finish_computation example_env \<lparr>coeffs = replicate 1024 3\<rparr>
         \<lparr>coeffs = replicate 1024 33\<rparr> \<lparr>coeffs = replicate 1024 1\<rparr> = replicate 32 1"
    by (simp add: NEWHOPE_finish_computation_def example_env_def NEWHOPE_KEY_LENGTH_def)
  have finish: "fst (NEWHOPE_finish example_env (replicate 32 0xFF) \<lparr>coeffs = replicate 1024 3\<rparr>
         (replicate 1792 33 @ encode_rec \<lparr>coeffs = replicate 1024 1\<rparr> (replicate 256 0)) 2048 10)
       = Inr ()
     \<and> fst (snd (NEWHOPE_finish example_env (replicate 32 0xFF) \<lparr>coeffs = replicate 1024 3\<rparr>
         (replicate 1792 33 @ encode_rec \<lparr>coeffs = replicate 1024 1\<rparr> (replicate 256 0)) 2048 10))
       = replicate 32 1"
    using handshake_agreement[OF env_wf_example_env 3 4 1 2, of 3]
    by (simp add: offer dec noise comp accept fdec fcomp message_lengths split_def Let_def
        encode_rec_length)
  from env_wf_example_env 1 2 3 4 offer accept finish show ?thesis by blast
qed

text \<open>C2: \<open>NEWHOPE_accept\<close> fails at its length check exactly when \<open>msg_len\<close> differs
  from \<open>NEWHOPE_OFFERMSG_LENGTH\<close>, and \<open>NEWHOPE_finish\<close> exactly when \<open>msg_len\<close>
  differs from \<open>NEWHOPE_ACCEPTMSG_LENGTH\<close>; in particular an offer message one byte
  short and an accept message one byte long make the functions return 0.\<close>

theorem length_rejection:
  "(fst (NEWHOPE_accept env key acceptmsg offermsg msg_len s) = Inl LengthMismatch)
     = (msg_len \<noteq> NEWHOPE_OFFERMSG_LENGTH)
   \<and> (fst (NEWHOPE_finish env' key' sk acceptmsg' msg_len' s') = Inl LengthMismatch)
     = (msg_len' \<noteq> NEWHOPE_ACCEPTMSG_LENGTH)
   \<and> c_return (fst (NEWHOPE_accept env key acceptmsg offermsg (NEWHOPE_OFFERMSG_LENGTH - 1) s)) = 0
   \<and> c_return (fst (NEWHOPE_finish env' key' sk acceptmsg' (NEWHOPE_ACCEPTMSG_LENGTH + 1) s')) = 0"
proof (intro conjI)
  show "(fst (NEWHOPE_accept env key acceptmsg offermsg msg_len s) = Inl LengthMismatch)
     = (msg_len \<noteq> NEWHOPE_OFFERMSG_LENGTH)"
    using NEWHOPE_accept_right_length[of env key acceptmsg offermsg s]
    by (cases "msg_len = NEWHOPE_OFFERMSG_LENGTH") (simp_all add: NEWHOPE_accept_wrong_length)
  show "(fst (NEWHOPE_finish env' key' sk acceptmsg' msg_len' s') = Inl LengthMismatch)
     = (msg_len' \<noteq> NEWHOPE_ACCEPTMSG_LENGTH)"
    using NEWHOPE_finish_right_length[of env' key' sk acceptmsg' s']
    by (cases "msg_len' = NEWHOPE_ACCEPTMSG_LENGTH") (simp_all add: NEWHOPE_finish_wrong_length)
  have "NEWHOPE_OFFERMSG_LENGTH - 1 \<noteq> NEWHOPE_OFFERMSG_LENGTH"
    by (simp add: NEWHOPE_OFFERMSG_LENGTH_def SEED_LENGTH_def)
  then show "c_return (fst (NEWHOPE_accept env key acceptmsg offermsg (NEWHOPE_OFFERMSG_LENGTH - 1) s)) = 0"
    by (simp add: NEWHOPE_accept_wrong_length c_return_def)
  show "c_return (fst (NEWHOPE_finish env' key' sk acceptmsg' (NEWHOPE_ACCEPTMSG_LENGTH + 1) s')) = 0"
    by (simp add: NEWHOPE_finish_wrong_length c_return_def)
qed

text \<open>C8: on a message of the wrong length \<open>NEWHOPE_accept\<close> and \<open>NEWHOPE_finish\<close>
  fail before anything is processed: the key buffer and, for \<open>NEWHOPE_accept\<close>, the
  accept message buffer are as they were at the call, and the state of the random
  source has not moved.\<close>

theorem wrong_length_no_effect:
  "(msg_len \<noteq> NEWHOPE_OFFERMSG_LENGTH \<longrightarrow>
      NEWHOPE_accept env key acceptmsg offermsg msg_len s = (Inl LengthMismatch, key, acceptmsg, s))
   \<and> (msg_len' \<noteq> NEWHOPE_ACCEPTMSG_LENGTH \<longrightarrow>
      NEWHOPE_finish env' key' sk acceptmsg' msg_len' s' = (Inl LengthMismatch, key', s'))"
  by (simp add: NEWHOPE_accept_wrong_length NEWHOPE_finish_wrong_length)

theorem wrong_length_no_effect_witness:
  "(1823::nat) \<noteq> NEWHOPE_OFFERMSG_LENGTH
   \<and> NEWHOPE_accept example_env (replicate 32 0xAA) (replicate 2048 0x55) (replicate 1823 0) 1823 7
       = (Inl LengthMismatch, replicate 32 0xAA, replicate 2048 0x55, 7)
   \<and> (2049::nat) \<noteq> NEWHOPE_ACCEPTMSG_LENGTH
   \<and> NEWHOPE_finish example_env (replicate 32 0xAA) poly_local (replicate 2049 0) 2049 7
       = (Inl LengthMismatch, replicate 32 0xAA, 7)"
  using wrong_length_no_effect[of 1823 example_env "replicate 32 0xAA" "replicate 2048 0x55"
      "replicate 1823 0" 7 2049 example_env "replicate 32 0xAA" poly_local "replicate 2049 0" 7]
  by (simp add: message_lengths)

text \<open>C3: for every input and every state of the random source,
  \<open>NEWHOPE_accept_computation\<close> returns \<open>bp = a \<cdot> secret' + error'\<close>, where \<open>error'\<close> is
  a fresh noise polynomial after the transform, and, with
  \<open>v = invntt(pk \<cdot> secret') + error''\<close>, the hint that \<open>newhope_helprec\<close> derives from
  \<open>v\<close> and the raw secret that \<open>newhope_reconcile\<close> derives from \<open>v\<close> and that hint.\<close>

theorem accept_computation_spec:
  "NEWHOPE_accept_computation env sp epp rand pk a s =
     (let (ep, s') = newhope_poly_getnoise env s;
          bp = spec_bp env a sp (newhope_poly_ntt env ep);
          v = spec_v env pk sp epp;
          hint = newhope_helprec env v rand;
          raw_secret = newhope_reconcile env v hint
      in (raw_secret, bp, hint, s'))"
  by (simp add: NEWHOPE_accept_computation_def spec_bp_def spec_v_def Let_def split_def)

text \<open>C4: for every secret key and every accept message of the right length,
  \<open>NEWHOPE_finish\<close> decodes \<open>bp\<close> from the first \<open>NEWHOPE_POLY_LENGTH\<close> bytes and the
  hint from the bytes after them, computes \<open>v' = invntt(secret_key \<cdot> bp)\<close>, reconciles
  \<open>v'\<close> with the hint, and returns the hash of that raw secret as the session key
  (the failure of the hash, which the source checks for, being the only other
  outcome).\<close>

theorem finish_spec:
  assumes "env_wf env" and "msg_len = NEWHOPE_ACCEPTMSG_LENGTH"
    and "length acceptmsg = NEWHOPE_ACCEPTMSG_LENGTH" and "length key = SHA256_DIGEST_LENGTH"
  shows "(let bp = NEWHOPE_POLY_frombytes env (take NEWHOPE_POLY_LENGTH acceptmsg);
              hint = unpack_hint (drop NEWHOPE_POLY_LENGTH acceptmsg);
              v' = spec_v' env sk bp;
              raw_secret = newhope_reconcile env v' hint
          in NEWHOPE_finish env key sk acceptmsg msg_len s =
               (case spec_hash env raw_secret of
                  None \<Rightarrow> (Inl HashFailure, key, s)
                | Some md \<Rightarrow> (Inr (), md, s)))"
proof -
  have fb: "NEWHOPE_POLY_frombytes env acceptmsg
             = NEWHOPE_POLY_frombytes env (take NEWHOPE_POLY_LENGTH acceptmsg)"
    using assms(1) unfolding env_wf_def by blast
  have len: "\<And>v c. take NEWHOPE_KEY_LENGTH (newhope_reconcile env v c) = newhope_reconcile env v c"
    using assms(1) by (simp add: env_wf_def)
  show ?thesis
    using assms(2) fb
    by (simp add: NEWHOPE_finish_def NEWHOPE_finish_decode_def NEWHOPE_finish_computation_def
        Let_def spec_v'_def sha256_of_k_digest[OF assms(1,4)] len
        decode_rec_unpack_hint[OF poly_wf_poly_local] split: option.splits)
qed

theorem finish_spec_witness:
  "env_wf example_env \<and> (2048::nat) = NEWHOPE_ACCEPTMSG_LENGTH
   \<and> length (replicate 2048 (0x1B::uint8_t)) = NEWHOPE_ACCEPTMSG_LENGTH
   \<and> length (replicate 32 (0::uint8_t)) = SHA256_DIGEST_LENGTH
   \<and> NEWHOPE_finish example_env (replicate 32 0) poly_local (replicate 2048 0x1B) 2048 5
       = (Inr (), replicate 32 3, 5)"
proof -
  have 1: "(2048::nat) = NEWHOPE_ACCEPTMSG_LENGTH" by (simp add: message_lengths)
  have 2: "length (replicate 2048 (0x1B::uint8_t)) = NEWHOPE_ACCEPTMSG_LENGTH"
    by (simp add: message_lengths)
  have 3: "length (replicate 32 (0::uint8_t)) = SHA256_DIGEST_LENGTH"
    by (simp add: SHA256_DIGEST_LENGTH_def)
  have slot: "hint_slot 0 (0x1B::uint8_t) = 3"
    by (simp add: hint_slot_def take_bit_eq_mod)
  have raw: "newhope_reconcile example_env v (unpack_hint (replicate 256 0x1B))
               = replicate 32 3" for v
    by (simp add: example_env_def hd_coeffs_unpack_hint slot NEWHOPE_KEY_LENGTH_def)
  have hash: "spec_hash example_env (replicate 32 3) = Some (replicate 32 3)"
    by (simp add: spec_hash_def example_env_def SHA256_DIGEST_LENGTH_def)
  have run: "NEWHOPE_finish example_env (replicate 32 0) poly_local (replicate 2048 0x1B) 2048 5
       = (Inr (), replicate 32 3, 5)"
    using finish_spec[OF env_wf_example_env 1 2 3, of poly_local 5]
    by (simp add: Let_def message_lengths raw hash)
  from env_wf_example_env 1 2 3 run show ?thesis by blast
qed

text \<open>C7: the offer message that \<open>NEWHOPE_offer\<close> produces is the packed ring element
  \<open>pk\<close>, in the first \<open>NEWHOPE_POLY_LENGTH\<close> bytes, followed by the 32-byte seed; the
  source computes \<open>pk\<close> as \<open>error + secret \<cdot> a\<close>, which is the spec's
  \<open>a \<cdot> secret + error\<close> when the ring operations commute. \<open>NEWHOPE_accept\<close>, given
  that message with its length, works on the ring element unpacked from the bytes at
  offset 0 and on the polynomial expanded from the seed at offset
  \<open>NEWHOPE_POLY_LENGTH\<close>, and on nothing else of the message; so it does on every
  message \<open>m\<close> of the expected length, with the first \<open>NEWHOPE_POLY_LENGTH\<close> bytes
  of \<open>m\<close> and the bytes after them.\<close>

theorem offer_message_layout:
  assumes "env_wf env" and "length offermsg0 = NEWHOPE_OFFERMSG_LENGTH"
    and "length m = NEWHOPE_OFFERMSG_LENGTH"
  shows "(let (sk0, s1) = newhope_poly_getnoise env s;
              sk = newhope_poly_ntt env sk0;
              (seed, s2) = RAND_bytes env SEED_LENGTH s1;
              a = newhope_poly_uniform env seed;
              (e0, s3) = newhope_poly_getnoise env s2;
              e = newhope_poly_ntt env e0;
              pk = newhope_poly_add env e (newhope_poly_pointwise env sk a);
              packed = newhope_poly_tobytes env pk
          in NEWHOPE_offer env offermsg0 s = (packed @ seed, sk, s3)
             \<and> length packed = NEWHOPE_POLY_LENGTH \<and> length seed = 32
             \<and> (poly_commutative env \<longrightarrow> pk = spec_pk env a sk e)
             \<and> NEWHOPE_accept_decode env (packed @ seed)
                 = (NEWHOPE_POLY_frombytes env packed, newhope_poly_uniform env seed)
             \<and> NEWHOPE_accept env key acceptmsg (packed @ seed) (length (packed @ seed)) t
                 = (let (sp, epp, rand, t1) = NEWHOPE_accept_noise env t;
                        (k, bp, c, t2) =
                           NEWHOPE_accept_computation env sp epp rand
                             (NEWHOPE_POLY_frombytes env packed) (newhope_poly_uniform env seed) t1;
                        acceptmsg1 = store_bytes acceptmsg 0 (newhope_poly_tobytes env bp);
                        acceptmsg2 = take NEWHOPE_POLY_LENGTH acceptmsg1
                                     @ encode_rec c (drop NEWHOPE_POLY_LENGTH acceptmsg1);
                        (r, key') = sha256_of_k env key k
                    in (r, key', acceptmsg2, t2)))
         \<and> NEWHOPE_accept env key acceptmsg m (length m) t
             = (let (sp, epp, rand, t1) = NEWHOPE_accept_noise env t;
                    (k, bp, c, t2) =
                       NEWHOPE_accept_computation env sp epp rand
                         (NEWHOPE_POLY_frombytes env (take NEWHOPE_POLY_LENGTH m))
                         (newhope_poly_uniform env (drop NEWHOPE_POLY_LENGTH m)) t1;
                    acceptmsg1 = store_bytes acceptmsg 0 (newhope_poly_tobytes env bp);
                    acceptmsg2 = take NEWHOPE_POLY_LENGTH acceptmsg1
                                 @ encode_rec c (drop NEWHOPE_POLY_LENGTH acceptmsg1);
                    (r, key') = sha256_of_k env key k
                in (r, key', acceptmsg2, t2))"
proof -
  have tb: "\<And>p. length (newhope_poly_tobytes env p) = NEWHOPE_POLY_LENGTH"
    using assms(1) by (simp add: env_wf_def)
  have rb: "\<And>n t. length (fst (RAND_bytes env n t)) = n"
    using assms(1) by (simp add: env_wf_def)
  have fb: "\<And>b. NEWHOPE_POLY_frombytes env b
             = NEWHOPE_POLY_frombytes env (take NEWHOPE_POLY_LENGTH b)"
    using assms(1) unfolding env_wf_def by blast
  have comm: "poly_commutative env \<Longrightarrow>
     newhope_poly_add env e (newhope_poly_pointwise env sk a) = spec_pk env a sk e" for e sk a
    unfolding poly_commutative_def spec_pk_def by metis
  have st1: "store_bytes offermsg0 NEWHOPE_POLY_LENGTH seed = take NEWHOPE_POLY_LENGTH offermsg0 @ seed"
    if "length seed = SEED_LENGTH" for seed
    using that assms(2) by (simp add: store_bytes_suffix NEWHOPE_OFFERMSG_LENGTH_def)
  have st2: "store_bytes (take NEWHOPE_POLY_LENGTH offermsg0 @ seed) 0 packed = packed @ seed"
    if "length packed = NEWHOPE_POLY_LENGTH" for seed packed
    using that assms(2) by (simp add: store_bytes_prefix NEWHOPE_OFFERMSG_LENGTH_def)
  have dr: "drop NEWHOPE_POLY_LENGTH (take NEWHOPE_POLY_LENGTH offermsg0 @ seed) = seed" for seed
    using assms(2) by (simp add: NEWHOPE_OFFERMSG_LENGTH_def)
  have dec: "NEWHOPE_accept_decode env (packed @ seed)
       = (NEWHOPE_POLY_frombytes env packed, newhope_poly_uniform env seed)"
    if "length packed = NEWHOPE_POLY_LENGTH" for packed seed
    using that fb[of "packed @ seed"] by (simp add: NEWHOPE_accept_decode_def)
  have acc: "NEWHOPE_accept env key acceptmsg b NEWHOPE_OFFERMSG_LENGTH t
             = (let (sp, epp, rand, t1) = NEWHOPE_accept_noise env t;
                    (k, bp, c, t2) =
                       NEWHOPE_accept_computation env sp epp rand
                         (NEWHOPE_POLY_frombytes env (take NEWHOPE_POLY_LENGTH b))
                         (newhope_poly_uniform env (drop NEWHOPE_POLY_LENGTH b)) t1;
                    acceptmsg1 = store_bytes acceptmsg 0 (newhope_poly_tobytes env bp);
                    acceptmsg2 = take NEWHOPE_POLY_LENGTH acceptmsg1
                                 @ encode_rec c (drop NEWHOPE_POLY_LENGTH acceptmsg1);
                    (r, key') = sha256_of_k env key k
                in (r, key', acceptmsg2, t2))" for b
    using fb[of b] by (simp add: NEWHOPE_accept_def NEWHOPE_accept_decode_def Let_def)
  obtain sk0 s1 where g1: "newhope_poly_getnoise env s = (sk0, s1)" by force
  obtain seed s2 where r: "RAND_bytes env SEED_LENGTH s1 = (seed, s2)" by force
  obtain e0 s3 where g2: "newhope_poly_getnoise env s2 = (e0, s3)" by force
  have ls: "length seed = SEED_LENGTH" using rb[of SEED_LENGTH s1] r by simp
  have offer: "NEWHOPE_offer env offermsg0 s =
     (newhope_poly_tobytes env (newhope_poly_add env (newhope_poly_ntt env e0)
        (newhope_poly_pointwise env (newhope_poly_ntt env sk0) (newhope_poly_uniform env seed)))
      @ seed, newhope_poly_ntt env sk0, s3)"
    by (simp add: NEWHOPE_offer_def g1 r g2 st1[OF ls] dr st2 tb Let_def del: drop_append)
  have l32: "length seed = 32" using ls by (simp add: SEED_LENGTH_def)
  have lm: "length (packed @ seed) = NEWHOPE_OFFERMSG_LENGTH"
    if "length packed = NEWHOPE_POLY_LENGTH" for packed
    using that ls by (simp add: NEWHOPE_OFFERMSG_LENGTH_def)
  have acc_offer: "NEWHOPE_accept env key acceptmsg (packed @ seed) (length (packed @ seed)) t
       = (let (sp, epp, rand, t1) = NEWHOPE_accept_noise env t;
              (k, bp, c, t2) =
                 NEWHOPE_accept_computation env sp epp rand
                   (NEWHOPE_POLY_frombytes env packed) (newhope_poly_uniform env seed) t1;
              acceptmsg1 = store_bytes acceptmsg 0 (newhope_poly_tobytes env bp);
              acceptmsg2 = take NEWHOPE_POLY_LENGTH acceptmsg1
                           @ encode_rec c (drop NEWHOPE_POLY_LENGTH acceptmsg1);
              (r, key') = sha256_of_k env key k
          in (r, key', acceptmsg2, t2))"
    if "length packed = NEWHOPE_POLY_LENGTH" for packed
    using acc[of "packed @ seed"] that by (simp only: lm[OF that]) simp
  have first: "(let (sk0, s1) = newhope_poly_getnoise env s;
              sk = newhope_poly_ntt env sk0;
              (seed, s2) = RAND_bytes env SEED_LENGTH s1;
              a = newhope_poly_uniform env seed;
              (e0, s3) = newhope_poly_getnoise env s2;
              e = newhope_poly_ntt env e0;
              pk = newhope_poly_add env e (newhope_poly_pointwise env sk a);
              packed = newhope_poly_tobytes env pk
          in NEWHOPE_offer env offermsg0 s = (packed @ seed, sk, s3)
             \<and> length packed = NEWHOPE_POLY_LENGTH \<and> length seed = 32
             \<and> (poly_commutative env \<longrightarrow> pk = spec_pk env a sk e)
             \<and> NEWHOPE_accept_decode env (packed @ seed)
                 = (NEWHOPE_POLY_frombytes env packed, newhope_poly_uniform env seed)
             \<and> NEWHOPE_accept env key acceptmsg (packed @ seed) (length (packed @ seed)) t
                 = (let (sp, epp, rand, t1) = NEWHOPE_accept_noise env t;
                        (k, bp, c, t2) =
                           NEWHOPE_accept_computation env sp epp rand
                             (NEWHOPE_POLY_frombytes env packed) (newhope_poly_uniform env seed) t1;
                        acceptmsg1 = store_bytes acceptmsg 0 (newhope_poly_tobytes env bp);
                        acceptmsg2 = take NEWHOPE_POLY_LENGTH acceptmsg1
                                     @ encode_rec c (drop NEWHOPE_POLY_LENGTH acceptmsg1);
                        (r, key') = sha256_of_k env key k
                    in (r, key', acceptmsg2, t2)))"
    unfolding g1 r g2 Let_def prod.case
    using offer tb l32 dec[OF tb] comm acc_offer[OF tb]
    by (simp add: Let_def)
  have second: "NEWHOPE_accept env key acceptmsg m (length m) t
             = (let (sp, epp, rand, t1) = NEWHOPE_accept_noise env t;
                    (k, bp, c, t2) =
                       NEWHOPE_accept_computation env sp epp rand
                         (NEWHOPE_POLY_frombytes env (take NEWHOPE_POLY_LENGTH m))
                         (newhope_poly_uniform env (drop NEWHOPE_POLY_LENGTH m)) t1;
                    acceptmsg1 = store_bytes acceptmsg 0 (newhope_poly_tobytes env bp);
                    acceptmsg2 = take NEWHOPE_POLY_LENGTH acceptmsg1
                                 @ encode_rec c (drop NEWHOPE_POLY_LENGTH acceptmsg1);
                    (r, key') = sha256_of_k env key k
                in (r, key', acceptmsg2, t2))"
    using acc[of m] by (simp only: assms(3))
  from first second show ?thesis by (rule conjI)
qed


theorem offer_message_layout_witness:
  "env_wf example_env \<and> length (replicate 1824 (0::uint8_t)) = NEWHOPE_OFFERMSG_LENGTH
   \<and> length (replicate 1824 (2::uint8_t)) = NEWHOPE_OFFERMSG_LENGTH
   \<and> poly_commutative example_env
   \<and> NEWHOPE_offer example_env (replicate 1824 0) 3
       = (replicate 1792 17 @ replicate 32 4, \<lparr>coeffs = replicate 1024 3\<rparr>, 6)
   \<and> spec_pk example_env \<lparr>coeffs = replicate 1024 4\<rparr> \<lparr>coeffs = replicate 1024 3\<rparr>
         \<lparr>coeffs = replicate 1024 5\<rparr> = \<lparr>coeffs = replicate 1024 17\<rparr>
   \<and> NEWHOPE_accept_decode example_env (replicate 1792 17 @ replicate 32 4)
       = (\<lparr>coeffs = replicate 1024 17\<rparr>, \<lparr>coeffs = replicate 1024 4\<rparr>)
   \<and> NEWHOPE_accept example_env (replicate 32 0xAA) (replicate 2048 0x55)
         (replicate 1792 17 @ replicate 32 4) 1824 6
       = (Inr (), replicate 32 1,
          replicate 1792 33 @ encode_rec \<lparr>coeffs = replicate 1024 1\<rparr> (replicate 256 0x55), 10)
   \<and> NEWHOPE_accept example_env (replicate 32 0xAA) (replicate 2048 0x55)
         (replicate 1824 2) 1824 6
       = (Inr (), replicate 32 3,
          replicate 1792 21 @ encode_rec \<lparr>coeffs = replicate 1024 3\<rparr> (replicate 256 0x55), 10)"
proof -
  have 1: "length (replicate 1824 (0::uint8_t)) = NEWHOPE_OFFERMSG_LENGTH"
    by (simp add: message_lengths)
  have 2: "length (replicate 1824 (2::uint8_t)) = NEWHOPE_OFFERMSG_LENGTH"
    by (simp add: message_lengths)
  have noise: "newhope_poly_getnoise example_env s = (\<lparr>coeffs = replicate 1024 (of_nat s)\<rparr>, Suc s)" for s
    by (simp add: example_env_def PARAM_N_def)
  have rand: "RAND_bytes example_env SEED_LENGTH s = (replicate 32 (of_nat s), Suc s)" for s
    by (simp add: example_env_def SEED_LENGTH_def)
  have ntt: "newhope_poly_ntt example_env p = p" for p
    by (simp add: example_env_def)
  have uni: "newhope_poly_uniform example_env (replicate 32 x) = \<lparr>coeffs = replicate 1024 (ucast x)\<rparr>" for x
    by (simp add: example_env_def PARAM_N_def)
  have pk: "newhope_poly_add example_env \<lparr>coeffs = replicate 1024 5\<rparr>
              (newhope_poly_pointwise example_env \<lparr>coeffs = replicate 1024 3\<rparr>
                 \<lparr>coeffs = replicate 1024 4\<rparr>) = \<lparr>coeffs = replicate 1024 17\<rparr>"
    by (simp add: example_env_def poly_map2_def)
  have packed: "newhope_poly_tobytes example_env \<lparr>coeffs = replicate 1024 x\<rparr> = replicate 1792 (ucast x)" for x
    by (simp add: example_env_def message_lengths)
  have unpack: "NEWHOPE_POLY_frombytes example_env (replicate 1792 x) = \<lparr>coeffs = replicate 1024 (ucast x)\<rparr>" for x
    by (simp add: example_env_def PARAM_N_def)
  have anoise: "NEWHOPE_accept_noise example_env 6
       = (\<lparr>coeffs = replicate 1024 6\<rparr>, \<lparr>coeffs = replicate 1024 7\<rparr>, replicate 32 8, 9)"
    by (simp add: NEWHOPE_accept_noise_def example_env_def PARAM_N_def)
  have comp1: "NEWHOPE_accept_computation example_env \<lparr>coeffs = replicate 1024 6\<rparr>
        \<lparr>coeffs = replicate 1024 7\<rparr> (replicate 32 8) \<lparr>coeffs = replicate 1024 17\<rparr>
        \<lparr>coeffs = replicate 1024 4\<rparr> 9
       = (replicate 32 1, \<lparr>coeffs = replicate 1024 33\<rparr>, \<lparr>coeffs = replicate 1024 1\<rparr>, 10)"
    by (simp add: NEWHOPE_accept_computation_def example_env_def poly_map2_def PARAM_N_def
        NEWHOPE_KEY_LENGTH_def)
  have comp2: "NEWHOPE_accept_computation example_env \<lparr>coeffs = replicate 1024 6\<rparr>
        \<lparr>coeffs = replicate 1024 7\<rparr> (replicate 32 8) \<lparr>coeffs = replicate 1024 2\<rparr>
        \<lparr>coeffs = replicate 1024 2\<rparr> 9
       = (replicate 32 3, \<lparr>coeffs = replicate 1024 21\<rparr>, \<lparr>coeffs = replicate 1024 3\<rparr>, 10)"
    by (simp add: NEWHOPE_accept_computation_def example_env_def poly_map2_def PARAM_N_def
        NEWHOPE_KEY_LENGTH_def)
  have hash: "sha256_of_k example_env (replicate 32 0xAA) (replicate 32 x) = (Inr (), replicate 32 x)" for x
    by (simp add: sha256_of_k_def example_env_def store_bytes_def NEWHOPE_KEY_LENGTH_def
        SHA256_DIGEST_LENGTH_def)
  have run: "NEWHOPE_offer example_env (replicate 1824 0) 3
       = (replicate 1792 17 @ replicate 32 4, \<lparr>coeffs = replicate 1024 3\<rparr>, 6)
     \<and> \<lparr>coeffs = replicate 1024 17\<rparr> = spec_pk example_env \<lparr>coeffs = replicate 1024 4\<rparr>
         \<lparr>coeffs = replicate 1024 3\<rparr> \<lparr>coeffs = replicate 1024 5\<rparr>
     \<and> NEWHOPE_accept_decode example_env (replicate 1792 17 @ replicate 32 4)
       = (\<lparr>coeffs = replicate 1024 17\<rparr>, \<lparr>coeffs = replicate 1024 4\<rparr>)
     \<and> NEWHOPE_accept example_env (replicate 32 0xAA) (replicate 2048 0x55)
         (replicate 1792 17 @ replicate 32 4) 1824 6
       = (Inr (), replicate 32 1,
          replicate 1792 33 @ encode_rec \<lparr>coeffs = replicate 1024 1\<rparr> (replicate 256 0x55), 10)
     \<and> NEWHOPE_accept example_env (replicate 32 0xAA) (replicate 2048 0x55)
         (replicate 1824 2) 1824 6
       = (Inr (), replicate 32 3,
          replicate 1792 21 @ encode_rec \<lparr>coeffs = replicate 1024 3\<rparr> (replicate 256 0x55), 10)"
    using offer_message_layout[OF env_wf_example_env 1 2, of 3 "replicate 32 0xAA"
        "replicate 2048 0x55" 6] poly_commutative_example_env
    by (simp add: Let_def noise rand ntt uni pk packed unpack message_lengths anoise comp1 comp2
        hash store_bytes_def)
  from env_wf_example_env 1 2 poly_commutative_example_env run show ?thesis by metis
qed

text \<open>C10: \<open>NEWHOPE_finish\<close> is deterministic. Two runs with the same secret key and the
  same accept message, whatever the state of the random source and the old content of
  the key buffer in either, leave the random source as it was, return the same
  result, and on success the same session key.\<close>

theorem finish_deterministic:
  assumes "env_wf env" and "length key1 = SHA256_DIGEST_LENGTH"
    and "length key2 = SHA256_DIGEST_LENGTH" and "length acceptmsg = msg_len"
  shows "(let (r1, k1, t1) = NEWHOPE_finish env key1 sk acceptmsg msg_len s1;
              (r2, k2, t2) = NEWHOPE_finish env key2 sk acceptmsg msg_len s2
          in t1 = s1 \<and> t2 = s2 \<and> r1 = r2 \<and> (r1 = Inr () \<longrightarrow> k1 = k2))"
  by (simp add: NEWHOPE_finish_def Let_def split_def sha256_of_k_digest[OF assms(1,2)]
      sha256_of_k_digest[OF assms(1,3)] split: option.splits)

theorem finish_deterministic_witness:
  "env_wf example_env \<and> length (replicate 32 (1::uint8_t)) = SHA256_DIGEST_LENGTH
   \<and> length (replicate 32 (2::uint8_t)) = SHA256_DIGEST_LENGTH
   \<and> length (replicate 2048 (0x1B::uint8_t)) = 2048
   \<and> snd (snd (NEWHOPE_finish example_env (replicate 32 1) poly_local (replicate 2048 0x1B) 2048 5)) = 5
   \<and> fst (snd (NEWHOPE_finish example_env (replicate 32 1) poly_local (replicate 2048 0x1B) 2048 5))
     = fst (snd (NEWHOPE_finish example_env (replicate 32 2) poly_local (replicate 2048 0x1B) 2048 9))"
proof -
  have 1: "length (replicate 32 (1::uint8_t)) = SHA256_DIGEST_LENGTH"
    by (simp add: SHA256_DIGEST_LENGTH_def)
  have 2: "length (replicate 32 (2::uint8_t)) = SHA256_DIGEST_LENGTH"
    by (simp add: SHA256_DIGEST_LENGTH_def)
  have ok: "fst (NEWHOPE_finish example_env (replicate 32 1) poly_local (replicate 2048 0x1B) 2048 5)
             = Inr ()"
    by (simp add: NEWHOPE_finish_def message_lengths Let_def split_def sha256_of_k_def example_env_def)
  have 3: "length (replicate 2048 (0x1B::uint8_t)) = 2048" by simp
  from finish_deterministic[OF env_wf_example_env 1 2 3, of poly_local 5 9]
    ok env_wf_example_env 1 2
  show ?thesis
    by (simp add: Let_def split_def)
qed

end
